theory Spec2Isabelle
  imports Main
begin

section \<open>Python values\<close>

text \<open>
  The values that travel through the application: request parameters after parsing,
  members of a field's \<open>enum_values\<close> tuple, keyword arguments, and the entries of the
  JSON body that the error handler returns. Python's unbounded integers are \<open>int\<close>.
\<close>

datatype pyval =
    PNone
  | PBool bool
  | PInt int
  | PStr string
  | PList "pyval list"

text \<open>
  Python's \<open>==\<close> on these values. \<open>bool\<close> is a subclass of \<open>int\<close>, so \<open>True == 1\<close>
  and \<open>False == 0\<close>; lists compare element by element; values of unrelated types are
  unequal.
\<close>

fun py_eq :: "pyval \<Rightarrow> pyval \<Rightarrow> bool"
  and py_eq_list :: "pyval list \<Rightarrow> pyval list \<Rightarrow> bool" where
  "py_eq PNone PNone = True"
| "py_eq (PBool a) (PBool b) = (a = b)"
| "py_eq (PBool a) (PInt j) = ((if a then 1 else 0) = j)"
| "py_eq (PInt i) (PBool b) = (i = (if b then 1 else 0))"
| "py_eq (PInt i) (PInt j) = (i = j)"
| "py_eq (PStr s) (PStr t) = (s = t)"
| "py_eq (PList xs) (PList ys) = py_eq_list xs ys"
| "py_eq _ _ = False"
| "py_eq_list [] [] = True"
| "py_eq_list (x # xs) (y # ys) = (py_eq x y \<and> py_eq_list xs ys)"
| "py_eq_list _ _ = False"

text \<open>\<open>value in tuple\<close>: some member of the tuple equals the value.\<close>

fun py_in :: "pyval \<Rightarrow> pyval list \<Rightarrow> bool" where
  "py_in v [] = False"
| "py_in v (x # xs) = (py_eq x v \<or> py_in v xs)"

section \<open>Rendering integers: \<open>str(int)\<close>\<close>

definition digit_char :: "nat \<Rightarrow> char" where
  "digit_char d = ''0123456789'' ! d"

fun str_nat :: "nat \<Rightarrow> string" where
  "str_nat n = (if n < 10 then [digit_char n] else str_nat (n div 10) @ [digit_char (n mod 10)])"

declare str_nat.simps [simp del]

definition str_int :: "int \<Rightarrow> string" where
  "str_int i = (if i < 0 then CHR ''-'' # str_nat (nat (- i)) else str_nat (nat i))"

text \<open>Reading a decimal numeral back, used to show that \<open>str_nat\<close> loses nothing.\<close>

definition digit_val :: "char \<Rightarrow> nat" where
  "digit_val c = of_char c - 48"

definition nat_of_digits :: "string \<Rightarrow> nat" where
  "nat_of_digits s = foldl (\<lambda>acc c. 10 * acc + digit_val c) 0 s"

lemma digit_val_digit_char: "d < 10 \<Longrightarrow> digit_val (digit_char d) = d"
proof -
  assume "d < 10"
  then have "d \<in> {0, 1, 2, 3, 4, 5, 6, 7, 8, 9}" by auto
  then show ?thesis
    by (auto simp: digit_val_def digit_char_def)
qed

lemma nat_of_digits_snoc: "nat_of_digits (s @ [c]) = 10 * nat_of_digits s + digit_val c"
  by (simp add: nat_of_digits_def)

lemma nat_of_digits_str_nat: "nat_of_digits (str_nat n) = n"
proof (induction n rule: str_nat.induct)
  case (1 n)
  show ?case
  proof (cases "n < 10")
    case True
    then show ?thesis
      by (simp add: str_nat.simps [of n] nat_of_digits_def digit_val_digit_char)
  next
    case False
    with "1" have "nat_of_digits (str_nat (n div 10)) = n div 10" by simp
    with False show ?thesis
      by (simp add: str_nat.simps [of n] nat_of_digits_snoc digit_val_digit_char)
  qed
qed

lemma str_nat_inj: "str_nat m = str_nat n \<Longrightarrow> m = n"
  by (metis nat_of_digits_str_nat)

lemma str_nat_500: "str_nat 500 = ''500''"
  by (simp add: str_nat.simps [of 500] str_nat.simps [of 50] str_nat.simps [of 5] digit_char_def)

lemma str_nat_not_Nil: "str_nat n \<noteq> []"
  by (subst str_nat.simps) simp

lemma str_nat_eq_500: "str_nat n = ''500'' \<longleftrightarrow> n = 500"
  using str_nat_inj [of n 500] str_nat_500 by auto

lemma str_int_eq_500: "str_int i = ''500'' \<longleftrightarrow> i = 500"
proof (cases "i < 0")
  case True
  then show ?thesis by (simp add: str_int_def)
next
  case False
  then have "str_int i = str_nat (nat i)" by (simp add: str_int_def)
  with False show ?thesis by (simp add: str_nat_eq_500) arith
qed

section \<open>Errors\<close>

text \<open>
  The exceptions that the modelled code can raise. \<open>InvalidArgumentException\<close> carries the
  two values that its message is formatted from: the field's name and its \<open>enum_values\<close>.
\<close>

datatype error =
    InvalidArgumentException string "pyval list"
  | AttributeError string
  | NameError string
  | TypeError string
  | ParserError string

section \<open>The global exception handler (\<open>app.py\<close>)\<close>

text \<open>
  An exception as \<open>handle_exception\<close> sees it: which of the two tested classes it is an
  instance of, its \<open>code\<close> attribute (werkzeug declares it as an optional integer; the
  base \<open>HTTPException\<close> has \<open>code = None\<close>), and its \<open>str\<close> and \<open>repr\<close> renderings.
  For an exception of any other class the \<open>code\<close> component stands for whatever
  attribute of that name the object may carry; the handler never reads it.
\<close>

datatype exc_class = HTTPException | ServerException | OtherException string

record exn =
  exc_class :: exc_class
  code :: "int option"
  str_of :: string
  repr_of :: string

text \<open>The parts of Flask's \<open>request\<close> that the handler reads.\<close>

record request =
  url :: string
  args :: "(string \<times> string) list"
  json :: pyval

text \<open>What the handler does besides returning: the log record and the alert.\<close>

datatype effect =
    LogException exn
  | DingdingAlert string "(string \<times> string) list" pyval string "string list"

text \<open>\<open>str.split("\n")\<close>: the pieces between newlines; a text without newline is one piece.\<close>

fun split_nl :: "string \<Rightarrow> string list" where
  "split_nl [] = [[]]"
| "split_nl (c # cs) =
     (if c = CHR 0x0A then [] # split_nl cs
      else (case split_nl cs of [] \<Rightarrow> [[c]] | l # ls \<Rightarrow> (c # l) # ls))"

text \<open>\<open>"\n".join(lines)\<close>, the inverse of splitting.\<close>

fun join_nl :: "string list \<Rightarrow> string" where
  "join_nl [] = []"
| "join_nl [l] = l"
| "join_nl (l # ls) = l @ CHR 0x0A # join_nl ls"

text \<open>\<open>str(code)\<close> for an optional integer.\<close>

definition str_code :: "int option \<Rightarrow> string" where
  "str_code c = (case c of None \<Rightarrow> ''None'' | Some i \<Rightarrow> str_int i)"

definition code_val :: "int option \<Rightarrow> pyval" where
  "code_val c = (case c of None \<Rightarrow> PNone | Some i \<Rightarrow> PInt i)"

text \<open>
  Lines 65 to 67: the code starts as 500 and is replaced by \<open>e.code\<close> when \<open>e\<close> is an
  instance of \<open>HTTPException\<close> or \<open>ServerException\<close>.
\<close>

definition resolved_code :: "exn \<Rightarrow> int option" where
  "resolved_code e =
     (if exc_class e = HTTPException \<or> exc_class e = ServerException then code e else Some 500)"

text \<open>
  \<open>handle_exception\<close>. The text of \<open>traceback.format_exc\<close> depends on the interpreter's
  current exception and is a parameter, a function of the \<open>limit\<close> argument. The result
  is the returned pair of body and status together with the effects in the order in
  which they happen.
\<close>

definition handle_exception ::
  "(nat \<Rightarrow> string) \<Rightarrow> request \<Rightarrow> exn \<Rightarrow> ((string \<rightharpoonup> pyval) \<times> int option) \<times> effect list" where
  "handle_exception format_exc req e =
     (let code = resolved_code e;
          log = [LogException e];
          exc = split_nl (format_exc 10);
          alert = (if str_code code = ''500''
                   then [DingdingAlert (url req) (args req) (json req) (repr_of e) exc]
                   else [])
      in (([''error_code'' \<mapsto> code_val code,
            ''error_msg'' \<mapsto> PStr (str_of e),
            ''traceback'' \<mapsto> PList (map PStr exc)], code),
          log @ alert))"

definition is_alert :: "effect \<Rightarrow> bool" where
  "is_alert x = (case x of DingdingAlert _ _ _ _ _ \<Rightarrow> True | _ \<Rightarrow> False)"

definition alert_sent :: "(nat \<Rightarrow> string) \<Rightarrow> request \<Rightarrow> exn \<Rightarrow> bool" where
  "alert_sent format_exc req e = list_ex is_alert (snd (handle_exception format_exc req e))"

lemma str_code_eq_500: "str_code c = ''500'' \<longleftrightarrow> c = Some 500"
  by (cases c) (simp_all add: str_code_def str_int_eq_500)

lemma split_nl_not_Nil: "split_nl s \<noteq> []"
  by (induction s) (auto split: list.splits)

lemma join_nl_Cons: "ls \<noteq> [] \<Longrightarrow> join_nl (l # ls) = l @ CHR 0x0A # join_nl ls"
  by (cases ls) simp_all

lemma join_split_nl: "join_nl (split_nl s) = s"
proof (induction s)
  case Nil
  show ?case by simp
next
  case (Cons c cs)
  obtain l ls where sp: "split_nl cs = l # ls"
    using split_nl_not_Nil [of cs] by (cases "split_nl cs") auto
  show ?case
  proof (cases "c = CHR 0x0A")
    case True
    then show ?thesis using Cons by (simp add: join_nl_Cons split_nl_not_Nil)
  next
    case False
    have "join_nl ((c # l) # ls) = c # join_nl (l # ls)"
      by (cases ls) simp_all
    with False sp Cons show ?thesis by simp
  qed
qed

lemma split_nl_no_newline: "l \<in> set (split_nl s) \<Longrightarrow> CHR 0x0A \<notin> set l"
proof (induction s arbitrary: l)
  case Nil
  then show ?case by simp
next
  case (Cons c cs)
  obtain l' ls where sp: "split_nl cs = l' # ls"
    using split_nl_not_Nil [of cs] by (cases "split_nl cs") auto
  show ?case
  proof (cases "c = CHR 0x0A")
    case True
    with Cons show ?thesis by auto
  next
    case False
    with Cons.prems sp have "l = c # l' \<or> l \<in> set ls" by simp
    moreover have "CHR 0x0A \<notin> set l'" using Cons.IH [of l'] sp by simp
    moreover have "l \<in> set ls \<Longrightarrow> CHR 0x0A \<notin> set l" using Cons.IH [of l] sp by simp
    ultimately show ?thesis using False by auto
  qed
qed

text \<open>
  C2. \<open>handle_exception\<close> calls \<open>send_dingding_alert\<close> exactly when the resolved code is
  500. The resolved code is \<open>e.code\<close> for an \<open>HTTPException\<close> or a \<open>ServerException\<close>
  and 500 for every other exception, so every other exception raises the alert and an
  exception of the two classes raises it exactly when its code is 500.
\<close>

theorem handle_exception_alert_iff_500:
  "snd (handle_exception format_exc req e) =
     LogException e #
     (if resolved_code e = Some 500
      then [DingdingAlert (url req) (args req) (json req) (repr_of e) (split_nl (format_exc 10))]
      else [])
   \<and> alert_sent format_exc req e = (resolved_code e = Some 500)
   \<and> resolved_code e =
       (case exc_class e of HTTPException \<Rightarrow> code e | ServerException \<Rightarrow> code e
        | OtherException n \<Rightarrow> Some 500)
   \<and> alert_sent format_exc req (e\<lparr>exc_class := OtherException n\<rparr>)
   \<and> alert_sent format_exc req (e\<lparr>exc_class := HTTPException\<rparr>) = (code e = Some 500)
   \<and> alert_sent format_exc req (e\<lparr>exc_class := ServerException\<rparr>) = (code e = Some 500)"
  by (simp add: alert_sent_def handle_exception_def Let_def is_alert_def str_code_eq_500
      resolved_code_def split: exc_class.splits)

text \<open>
  C3. The body that \<open>handle_exception\<close> returns is a dictionary with exactly the keys
  \<open>error_code\<close>, \<open>error_msg\<close> and \<open>traceback\<close>: the resolved code, \<open>str(e)\<close>, and the
  lines of \<open>traceback.format_exc(limit=10)\<close> (joined by newlines they give the text
  back, and no line holds a newline). The status returned with it is the same resolved
  code: \<open>e.code\<close> for the two tested classes and 500 otherwise.
\<close>

theorem handle_exception_body:
  "(let ((body, status), effects) = handle_exception format_exc req e;
        lines = split_nl (format_exc 10)
    in dom body = {''error_code'', ''error_msg'', ''traceback''}
       \<and> body ''error_code'' = Some (code_val (resolved_code e))
       \<and> body ''error_msg'' = Some (PStr (str_of e))
       \<and> body ''traceback'' = Some (PList (map PStr lines))
       \<and> join_nl lines = format_exc 10
       \<and> (\<forall>l \<in> set lines. CHR 0x0A \<notin> set l)
       \<and> status = resolved_code e
       \<and> resolved_code e =
            (if exc_class e \<in> {HTTPException, ServerException} then code e else Some 500))"
proof -
  have "dom [''error_code'' \<mapsto> code_val (resolved_code e), ''error_msg'' \<mapsto> PStr (str_of e),
          ''traceback'' \<mapsto> PList (map PStr (split_nl (format_exc 10)))]
        = {''error_code'', ''error_msg'', ''traceback''}"
    by auto
  moreover have "\<forall>l \<in> set (split_nl (format_exc 10)). CHR 0x0A \<notin> set l"
    using split_nl_no_newline by blast
  ultimately show ?thesis
    by (simp add: handle_exception_def Let_def join_split_nl resolved_code_def)
qed

theorem handle_exception_body_witness:
  "(let ((body, status), effects) =
          handle_exception (\<lambda>limit. ''Traceback (most recent call last):'' @ [CHR 0x0A] @ ''KeyError: 7'')
            \<lparr>url = ''http://h/x'', args = [], json = PNone\<rparr>
            \<lparr>exc_class = OtherException ''KeyError'', code = None, str_of = ''7'',
             repr_of = ''KeyError(7)''\<rparr>
    in body ''error_code'' = Some (PInt 500)
       \<and> body ''error_msg'' = Some (PStr ''7'')
       \<and> body ''traceback'' = Some (PList [PStr ''Traceback (most recent call last):'', PStr ''KeyError: 7''])
       \<and> CHR 0x0A \<notin> set ''KeyError: 7''
       \<and> status = Some 500)"
  using handle_exception_body [of "\<lambda>limit. ''Traceback (most recent call last):'' @ [CHR 0x0A] @ ''KeyError: 7''"
      "\<lparr>url = ''http://h/x'', args = [], json = PNone\<rparr>"
      "\<lparr>exc_class = OtherException ''KeyError'', code = None, str_of = ''7'', repr_of = ''KeyError(7)''\<rparr>"]
  by (simp add: handle_exception_def Let_def resolved_code_def code_val_def)

section \<open>The JSON encoder (\<open>app.py\<close>)\<close>

text \<open>
  The values that reach \<open>JsonEncoder.default\<close>: a \<open>datetime.datetime\<close>, a
  \<open>datetime.date\<close>, a traceback \<open>FrameSummary\<close>, or an object of any other class, of
  which only the class name matters (the base encoder's message names it).
\<close>

record pydate =
  year :: nat
  month :: nat
  day :: nat

record pydatetime = pydate +
  hour :: nat
  minute :: nat
  second :: nat

record frame_summary =
  filename :: string
  lineno :: int
  func_name :: string

datatype json_input =
    DateTimeValue pydatetime
  | DateValue pydate
  | FrameSummaryValue frame_summary
  | OtherValue string

text \<open>Zero padding to a width, as the numeric directives of \<open>strftime\<close> do.\<close>

definition zero_pad :: "nat \<Rightarrow> nat \<Rightarrow> string" where
  "zero_pad w n = replicate (w - length (str_nat n)) CHR ''0'' @ str_nat n"

text \<open>
  One directive of a \<open>strftime\<close> format. Only the six directives of the format used
  here are interpreted; any other is left as written. (A C library may leave \<open>%Y\<close>
  unpadded for a year below 1000; from the year 1000 on the renderings agree.)
\<close>

definition directive :: "pydatetime \<Rightarrow> char \<Rightarrow> string" where
  "directive t d =
     (if d = CHR ''Y'' then zero_pad 4 (year t)
      else if d = CHR ''m'' then zero_pad 2 (month t)
      else if d = CHR ''d'' then zero_pad 2 (day t)
      else if d = CHR ''H'' then zero_pad 2 (hour t)
      else if d = CHR ''M'' then zero_pad 2 (minute t)
      else if d = CHR ''S'' then zero_pad 2 (second t)
      else [CHR ''%'', d])"

fun strftime :: "pydatetime \<Rightarrow> string \<Rightarrow> string" where
  "strftime t [] = []"
| "strftime t [c] = [c]"
| "strftime t (c # d # cs) =
     (if c = CHR ''%'' then directive t d @ strftime t cs else c # strftime t (d # cs))"

text \<open>A \<open>date\<close> formats its missing time of day as midnight.\<close>

definition date_strftime :: "pydate \<Rightarrow> string \<Rightarrow> string" where
  "date_strftime d fmt = strftime (pydate.extend d (pydatetime.fields 0 0 0)) fmt"

text \<open>\<open>FrameSummary\<close> defines no \<open>__str__\<close>; \<open>str\<close> gives its \<open>repr\<close>.\<close>

definition str_frame_summary :: "frame_summary \<Rightarrow> string" where
  "str_frame_summary f =
     ''<FrameSummary file '' @ filename f @ '', line '' @ str_int (lineno f) @ '' in ''
       @ func_name f @ ''>''"

text \<open>\<open>json.JSONEncoder.default\<close> raises \<open>TypeError\<close> for every object.\<close>

definition JSONEncoder_default :: "json_input \<Rightarrow> error + string" where
  "JSONEncoder_default v =
     Inl (TypeError (''Object of type '' @
       (case v of DateTimeValue _ \<Rightarrow> ''datetime'' | DateValue _ \<Rightarrow> ''date''
        | FrameSummaryValue _ \<Rightarrow> ''FrameSummary'' | OtherValue n \<Rightarrow> n)
       @ '' is not JSON serializable''))"

text \<open>\<open>JsonEncoder.default\<close>, its tests in the source's order.\<close>

fun JsonEncoder_default :: "json_input \<Rightarrow> error + string" where
  "JsonEncoder_default (DateTimeValue t) = Inr (strftime t ''%Y-%m-%d %H:%M:%S'')"
| "JsonEncoder_default (DateValue d) = Inr (date_strftime d ''%Y-%m-%d %H:%M:%S'')"
| "JsonEncoder_default (FrameSummaryValue f) = Inr (str_frame_summary f)"
| "JsonEncoder_default v = JSONEncoder_default v"

section \<open>The application factory (\<open>app.py\<close>)\<close>

text \<open>The three settings that \<open>app.py\<close> reads from the \<open>settings\<close> module.\<close>

record settings =
  SQLALCHEMY_DATABASE_URI :: string
  SQLALCHEMY_TRACK_MODIFICATIONS :: bool
  NAMESPACE :: string

datatype config_value = ConfigStr string | ConfigBool bool

datatype handler = Handle_exception

datatype encoder = DefaultJSONEncoder | JsonEncoder

text \<open>
  The Flask application as far as \<open>create_app\<close> writes to it. A blueprint is an opaque
  unit of registration, known by its name. Every call into Flask, flask-cors and
  SQLAlchemy is modelled by what it records on the application.
\<close>

type_synonym blueprint = string

record flask_app =
  import_name :: string
  cors_supports_credentials :: "bool option"
  config :: "string \<rightharpoonup> config_value"
  blueprints :: "blueprint list"
  error_handlers :: "(string \<times> handler) list"
  db_initialised :: bool
  json_encoder :: encoder

definition Flask :: "string \<Rightarrow> flask_app" where
  "Flask n = \<lparr>import_name = n, cors_supports_credentials = None, config = Map.empty,
     blueprints = [], error_handlers = [], db_initialised = False,
     json_encoder = DefaultJSONEncoder\<rparr>"

definition register_blueprint :: "blueprint \<Rightarrow> flask_app \<Rightarrow> flask_app" where
  "register_blueprint b app = app\<lparr>blueprints := blueprints app @ [b]\<rparr>"

definition register_error_handler :: "string \<Rightarrow> handler \<Rightarrow> flask_app \<Rightarrow> flask_app" where
  "register_error_handler c h app = app\<lparr>error_handlers := error_handlers app @ [(c, h)]\<rparr>"

text \<open>The loop of \<open>register_blueprints\<close> over \<open>all_blueprints\<close>.\<close>

fun register_blueprints :: "blueprint list \<Rightarrow> flask_app \<Rightarrow> flask_app" where
  "register_blueprints [] app = app"
| "register_blueprints (b # bs) app = register_blueprints bs (register_blueprint b app)"

definition init_config :: "settings \<Rightarrow> blueprint list \<Rightarrow> flask_app \<Rightarrow> flask_app" where
  "init_config st all_blueprints app =
     (let app1 = app\<lparr>config := (config app)(''SQLALCHEMY_DATABASE_URI'' \<mapsto>
                    ConfigStr (SQLALCHEMY_DATABASE_URI st))\<rparr>;
          app2 = app1\<lparr>config := (config app1)(''SQLALCHEMY_TRACK_MODIFICATIONS'' \<mapsto>
                    ConfigBool (SQLALCHEMY_TRACK_MODIFICATIONS st))\<rparr>;
          app3 = register_blueprints all_blueprints app2;
          app4 = register_error_handler ''Exception'' Handle_exception app3
      in app4\<lparr>db_initialised := True\<rparr>)"

definition create_app :: "settings \<Rightarrow> blueprint list \<Rightarrow> string \<Rightarrow> flask_app" where
  "create_app st all_blueprints module_name =
     (let app = Flask module_name;
          app1 = app\<lparr>cors_supports_credentials := Some True\<rparr>;
          app2 = init_config st all_blueprints app1
      in app2\<lparr>json_encoder := JsonEncoder\<rparr>)"

lemma register_blueprints_blueprints:
  "blueprints (register_blueprints bs app) = blueprints app @ bs"
  by (induction bs arbitrary: app) (simp_all add: register_blueprint_def)

lemma register_blueprints_error_handlers:
  "error_handlers (register_blueprints bs app) = error_handlers app"
  by (induction bs arbitrary: app) (simp_all add: register_blueprint_def)

text \<open>
  The rendering has a fixed width: for a year of at most four digits (Python's years run
  from 1 to 9999) and two-digit month, day, hour, minute and second, the text has the 19
  characters of \<open>YYYY-mm-dd HH:MM:SS\<close>.
\<close>

lemma str_nat_length: "n < 10 ^ k \<Longrightarrow> 0 < k \<Longrightarrow> length (str_nat n) \<le> k"
proof (induction n arbitrary: k rule: str_nat.induct)
  case (1 n)
  show ?case
  proof (cases "n < 10")
    case True
    then show ?thesis using "1.prems" by (simp add: str_nat.simps [of n])
  next
    case False
    with "1.prems" obtain j where k: "k = Suc j" and j: "0 < j"
      by (cases k; cases "k - 1") auto
    from "1.prems" k have "n div 10 < 10 ^ j"
      by (simp add: less_mult_imp_div_less mult.commute)
    from "1.IH" [OF False this j] False k show ?thesis
      by (simp add: str_nat.simps [of n])
  qed
qed

lemma zero_pad_length: "n < 10 ^ w \<Longrightarrow> 0 < w \<Longrightarrow> length (zero_pad w n) = w"
  using str_nat_length [of n w] by (simp add: zero_pad_def)

lemma strftime_length:
  assumes "year t < 10000" "month t < 100" "day t < 100" "hour t < 100" "minute t < 100"
    "second t < 100"
  shows "length (strftime t ''%Y-%m-%d %H:%M:%S'') = 19"
  using assms zero_pad_length [of "year t" 4] zero_pad_length [of "month t" 2]
    zero_pad_length [of "day t" 2] zero_pad_length [of "hour t" 2]
    zero_pad_length [of "minute t" 2] zero_pad_length [of "second t" 2]
  by (simp add: directive_def)

text \<open>
  C6. \<open>create_app\<close>, through \<open>init_config\<close>, registers every blueprint of
  \<open>all_blueprints\<close> with the application in the order of the list, and installs
  \<open>handle_exception\<close> as the one error handler, for the class \<open>Exception\<close>.
\<close>

theorem create_app_registers_blueprints_and_handler:
  "blueprints (create_app st all_blueprints module_name) = all_blueprints
   \<and> error_handlers (create_app st all_blueprints module_name) = [(''Exception'', Handle_exception)]
   \<and> blueprints (init_config st all_blueprints app) = blueprints app @ all_blueprints
   \<and> error_handlers (init_config st all_blueprints app)
       = error_handlers app @ [(''Exception'', Handle_exception)]"
  by (simp add: create_app_def init_config_def Let_def Flask_def register_error_handler_def
      register_blueprints_blueprints register_blueprints_error_handlers)

text \<open>
  C10. \<open>JsonEncoder.default\<close> renders a \<open>datetime\<close> and a \<open>date\<close> in the format
  \<open>%Y-%m-%d %H:%M:%S\<close> (year, month and day joined by hyphens, a space, then hour,
  minute and second joined by colons, each zero padded; a date has midnight as its
  time), renders a \<open>FrameSummary\<close> by \<open>str\<close>, and hands every other value to the base
  encoder, which raises \<open>TypeError\<close>. \<open>create_app\<close> installs this encoder as the
  application's JSON encoder.
\<close>

theorem JsonEncoder_default_cases:
  "JsonEncoder_default (DateTimeValue t) =
     Inr (zero_pad 4 (year t) @ ''-'' @ zero_pad 2 (month t) @ ''-'' @ zero_pad 2 (day t) @ '' ''
          @ zero_pad 2 (hour t) @ '':'' @ zero_pad 2 (minute t) @ '':'' @ zero_pad 2 (second t))
   \<and> JsonEncoder_default (DateValue d) =
     Inr (zero_pad 4 (year d) @ ''-'' @ zero_pad 2 (month d) @ ''-'' @ zero_pad 2 (day d)
          @ '' 00:00:00'')
   \<and> JsonEncoder_default (FrameSummaryValue f) = Inr (str_frame_summary f)
   \<and> JsonEncoder_default (OtherValue n) = JSONEncoder_default (OtherValue n)
   \<and> JSONEncoder_default (OtherValue n)
       = Inl (TypeError (''Object of type '' @ n @ '' is not JSON serializable''))
   \<and> json_encoder (create_app st all_blueprints module_name) = JsonEncoder"
  by (simp add: directive_def date_strftime_def pydate.extend_def pydatetime.fields_def
      JSONEncoder_default_def create_app_def Let_def zero_pad_def str_nat.simps [of 0]
      digit_char_def)

section \<open>Logging configuration (\<open>app.py\<close>)\<close>

text \<open>
  The dictionary handed to \<open>logging.config.dictConfig\<close>, with its entries in the order
  of the source. A stream handler has no file name, rotation or encoding.
\<close>

record log_handler =
  h_level :: string
  h_formatter :: string
  h_class :: string
  h_filename :: "string option"
  h_when :: "string option"
  h_interval :: "nat option"
  h_encoding :: "string option"

record log_logger =
  l_handlers :: "string list"
  l_level :: string
  l_propagate :: bool

record log_config =
  version :: nat
  disable_existing_loggers :: bool
  formatters :: "(string \<times> string) list"
  handlers :: "(string \<times> log_handler) list"
  loggers :: "(string \<times> log_logger) list"

text \<open>
  What \<open>init_logging\<close> changes outside the program: the directories that exist, the
  logging configuration in force, and whether the request logging of the WSGI handler
  has been replaced.
\<close>

record system =
  directories :: "string set"
  logging_config :: "log_config option"
  wsgi_log_request_patched :: bool

definition init_logging :: "settings \<Rightarrow> string \<Rightarrow> system \<Rightarrow> system" where
  "init_logging st hostname sys =
     (let level = (if NAMESPACE st = ''PRODUCTION'' then ''INFO'' else ''DEBUG'');
          dir_name = ''./log/'' @ hostname;
          sys1 = (if dir_name \<notin> directories sys
                  then sys\<lparr>directories := insert dir_name (directories sys)\<rparr> else sys);
          cfg = \<lparr>version = 1,
                 disable_existing_loggers = False,
                 formatters =
                   [(''brief'', ''%(message)s''),
                    (''standard'', ''[%(asctime)s] [%(levelname)s]  [%(filename)s.%(funcName)s:%(lineno)3d]  [%(process)d::%(thread)d] %(message)s'')],
                 handlers =
                   [(''default'',
                     \<lparr>h_level = level, h_formatter = ''standard'',
                      h_class = ''logging.handlers.TimedRotatingFileHandler'',
                      h_filename = Some (dir_name @ ''/server.log''), h_when = Some ''midnight'',
                      h_interval = Some 1, h_encoding = Some ''utf8''\<rparr>),
                    (''console'',
                     \<lparr>h_level = level, h_formatter = ''standard'',
                      h_class = ''logging.StreamHandler'',
                      h_filename = None, h_when = None, h_interval = None, h_encoding = None\<rparr>),
                    (''default_access'',
                     \<lparr>h_level = level, h_formatter = ''brief'',
                      h_class = ''logging.handlers.TimedRotatingFileHandler'',
                      h_filename = Some (dir_name @ ''/access.log''), h_when = Some ''midnight'',
                      h_interval = Some 1, h_encoding = Some ''utf8''\<rparr>),
                    (''console_access'',
                     \<lparr>h_level = level, h_formatter = ''brief'',
                      h_class = ''logging.StreamHandler'',
                      h_filename = None, h_when = None, h_interval = None, h_encoding = None\<rparr>)],
                 loggers =
                   [(''werkzeug'',
                     \<lparr>l_handlers = [''default_access'', ''console_access''], l_level = level,
                      l_propagate = False\<rparr>),
                    ([],
                     \<lparr>l_handlers = [''default'', ''console''], l_level = level,
                      l_propagate = False\<rparr>)]\<rparr>
      in sys1\<lparr>logging_config := Some cfg, wsgi_log_request_patched := True\<rparr>)"

text \<open>The level that a namespace selects, as C7 words it.\<close>

definition namespace_level :: "string \<Rightarrow> string" where
  "namespace_level ns = (if ns = ''PRODUCTION'' then ''INFO'' else ''DEBUG'')"

text \<open>
  C7. \<open>init_logging\<close> selects the level \<open>INFO\<close> exactly when \<open>settings.NAMESPACE\<close> is
  \<open>PRODUCTION\<close> and \<open>DEBUG\<close> for every other namespace, and the configuration it
  installs gives that one level to each of its four handlers and to both the
  \<open>werkzeug\<close> logger and the root logger (whose name is the empty string).
\<close>

theorem init_logging_level_uniform:
  "(\<exists>cfg. logging_config (init_logging st hostname sys) = Some cfg
      \<and> map (\<lambda>(n, h). (n, h_level h)) (handlers cfg)
          = [(''default'', namespace_level (NAMESPACE st)),
             (''console'', namespace_level (NAMESPACE st)),
             (''default_access'', namespace_level (NAMESPACE st)),
             (''console_access'', namespace_level (NAMESPACE st))]
      \<and> map (\<lambda>(n, l). (n, l_level l)) (loggers cfg)
          = [(''werkzeug'', namespace_level (NAMESPACE st)),
             ([], namespace_level (NAMESPACE st))])
   \<and> (namespace_level (NAMESPACE st) = ''INFO'') = (NAMESPACE st = ''PRODUCTION'')
   \<and> (namespace_level (NAMESPACE st) = ''DEBUG'') = (NAMESPACE st \<noteq> ''PRODUCTION'')"
  by (simp add: init_logging_def Let_def namespace_level_def)

section \<open>Query fields (\<open>models/query_model\<close>)\<close>

type_synonym kwargs = "string \<rightharpoonup> pyval"

text \<open>A function object, known only by a label: the code passes it on and never calls it.\<close>

type_synonym callable = string

text \<open>
  The attributes that the base class \<open>Field\<close> is responsible for. \<open>Field\<close> is not among
  the sources; \<open>QueryField\<close> lists these names in its \<open>__slots__\<close> and hands the
  matching arguments to \<open>Field.__init__\<close>. \<open>mock_func\<close> is a function or \<open>False\<close>
  (\<open>None\<close> here). \<open>parse_args\<close> also reads an attribute \<open>kwargs\<close>, which neither
  \<open>QueryField.__slots__\<close> nor \<open>QueryField.__init__\<close> provides: it is \<open>None\<close> unless
  the base class sets it, and reading it then raises \<open>AttributeError\<close>.
\<close>

record Field =
  name :: string
  field_type :: string
  mock_func :: "callable option"
  enum_values :: "pyval list"
  description :: string
  nullable :: bool
  kwargs :: "kwargs option"

text \<open>
  The attributes that \<open>QueryField.__init__\<close> assigns, in its order. \<open>default_attr\<close> is
  the slot \<open>default\<close>, which stays unset (\<open>None\<close>) unless a value is assigned.
\<close>

record QueryField = Field +
  location :: pyval
  parser_kwargs :: kwargs
  required :: bool
  parse_func :: "callable option"
  default_attr :: "pyval option"

text \<open>
  The optional parameters of \<open>QueryField.__init__\<close>; \<open>None\<close> is a parameter that the
  caller leaves out, for which the signature's default stands.
\<close>

record QueryField_args =
  arg_parser_func :: "callable option"
  arg_required :: "bool option"
  arg_mock_func :: "callable option"
  arg_enum_values :: "pyval list option"
  arg_comment :: "string option"
  arg_nullable :: "bool option"

text \<open>
  \<open>QueryField.__init__\<close>. The initialiser of the base class is a parameter; it receives
  the field type, \<open>mock_func\<close>, \<open>enum_values\<close>, \<open>comment\<close> and \<open>nullable\<close>, and never the
  extra keyword arguments.
\<close>

definition QueryField_init ::
  "(string \<Rightarrow> callable option \<Rightarrow> pyval list \<Rightarrow> string \<Rightarrow> bool \<Rightarrow> error + Field)
   \<Rightarrow> string \<Rightarrow> pyval \<Rightarrow> QueryField_args \<Rightarrow> kwargs \<Rightarrow> error + QueryField" where
  "QueryField_init Field_init ftype loc a kw =
     (let parser_func = arg_parser_func a;
          req = (case arg_required a of None \<Rightarrow> False | Some r \<Rightarrow> r);
          mock = arg_mock_func a;
          enum = (case arg_enum_values a of None \<Rightarrow> [] | Some vs \<Rightarrow> vs);
          comment = (case arg_comment a of None \<Rightarrow> [] | Some c \<Rightarrow> c);
          nullable_arg = (case arg_nullable a of None \<Rightarrow> True | Some n \<Rightarrow> n)
      in case Field_init ftype mock enum comment nullable_arg of
           Inl e \<Rightarrow> Inl e
         | Inr self \<Rightarrow>
             Inr (Field.extend self (QueryField.fields loc kw req parser_func (kw ''default''))))"

section \<open>Query models (\<open>models/query_model\<close>)\<close>

text \<open>
  A query-model class as \<open>BaseQueryModel\<close> reads it: its name, its \<open>__fields__\<close> and the
  keys of its \<open>__fields_map__\<close>. Both are built when the class is created, by code that
  is not among the sources.
\<close>

record model_class =
  class_name :: string
  cls_fields :: "QueryField list"
  cls_fields_map_keys :: "string list"

text \<open>
  An instance: the attributes set on it, with the dictionary \<open>__storage__\<close> kept apart
  from the attributes that hold plain values (\<open>None\<close> when the attribute is not set).
\<close>

record model_instance =
  inst_class :: string
  attrs :: kwargs
  storage :: "kwargs option"

text \<open>\<open>delattr(self, n)\<close>: raises \<open>AttributeError\<close> when the instance has no such attribute.\<close>

definition delattr :: "model_instance \<Rightarrow> string \<Rightarrow> error + model_instance" where
  "delattr self n =
     (if n = ''__storage__''
      then (case storage self of None \<Rightarrow> Inl (AttributeError n)
            | Some d \<Rightarrow> Inr (self\<lparr>storage := None\<rparr>))
      else (case attrs self n of None \<Rightarrow> Inl (AttributeError n)
            | Some v \<Rightarrow> Inr (self\<lparr>attrs := (attrs self)(n := None)\<rparr>)))"

text \<open>
  The loop of \<open>BaseQueryModel.__init__\<close> (lines 27 to 29); each round reads
  \<open>self.__storage__\<close> anew.
\<close>

fun delete_missing :: "string list \<Rightarrow> model_instance \<Rightarrow> error + model_instance" where
  "delete_missing [] self = Inr self"
| "delete_missing (field_name # rest) self =
     (case storage self of
        None \<Rightarrow> Inl (AttributeError ''__storage__'')
      | Some d \<Rightarrow>
          (if field_name \<notin> dom d
           then (case delattr self field_name of
                   Inl e \<Rightarrow> Inl e
                 | Inr self' \<Rightarrow> delete_missing rest self')
           else delete_missing rest self))"

text \<open>
  \<open>BaseQueryModel.__init__(self, **kwargs)\<close>. A keyword \<open>self\<close> collides with the first
  parameter, and a keyword \<open>drop_missing\<close> with the one passed to the base initialiser;
  Python raises \<open>TypeError\<close> for either. \<open>BaseModel.__init__\<close> is not among the sources
  and is a parameter: from the class, the flag \<open>drop_missing\<close> and the keywords it gives
  the attributes set on the new instance, or raises.
\<close>

definition BaseQueryModel_init ::
  "(model_class \<Rightarrow> bool \<Rightarrow> kwargs \<Rightarrow> error + kwargs) \<Rightarrow> model_class \<Rightarrow> kwargs
   \<Rightarrow> error + model_instance" where
  "BaseQueryModel_init BaseModel_init cls kw =
     (if ''self'' \<in> dom kw then Inl (TypeError ''multiple values for argument self'')
      else if ''drop_missing'' \<in> dom kw
      then Inl (TypeError ''multiple values for keyword argument drop_missing'')
      else (case BaseModel_init cls False kw of
              Inl e \<Rightarrow> Inl e
            | Inr a \<Rightarrow>
                delete_missing (cls_fields_map_keys cls)
                  \<lparr>inst_class = class_name cls, attrs = a(''__storage__'' := None),
                   storage = Some kw\<rparr>))"

definition as_dict :: "model_instance \<Rightarrow> error + kwargs" where
  "as_dict self =
     (case storage self of None \<Rightarrow> Inl (AttributeError ''__storage__'') | Some d \<Rightarrow> Inr d)"

text \<open>\<open>get(item, default)\<close>; the caller that leaves \<open>default\<close> out passes \<open>PNone\<close>.\<close>

definition get :: "model_instance \<Rightarrow> string \<Rightarrow> pyval \<Rightarrow> error + pyval" where
  "get self item dflt =
     (case storage self of
        None \<Rightarrow> Inl (AttributeError ''__storage__'')
      | Some d \<Rightarrow> Inr (case d item of None \<Rightarrow> dflt | Some v \<Rightarrow> v))"

definition contains :: "model_instance \<Rightarrow> string \<Rightarrow> error + bool" where
  "contains self item =
     (case storage self of
        None \<Rightarrow> Inl (AttributeError ''__storage__'')
      | Some d \<Rightarrow> Inr (item \<in> dom d))"

subsection \<open>\<open>parse_args\<close>\<close>

text \<open>One call of \<open>RequestParser.add_argument\<close>, as the parser records it.\<close>

record Argument =
  a_name :: string
  a_type :: "callable option"
  a_location :: pyval
  a_required :: bool
  a_nullable :: bool
  a_kwargs :: kwargs

text \<open>
  The call of line 36: the attributes are read from left to right, \<open>field.kwargs\<close> last;
  a key of \<open>field.kwargs\<close> that repeats one of the four explicit keywords makes the call
  a \<open>TypeError\<close>; otherwise the parser gains one argument.
\<close>

definition add_argument :: "QueryField \<Rightarrow> Argument list \<Rightarrow> error + Argument list" where
  "add_argument field parser =
     (case kwargs field of
        None \<Rightarrow> Inl (AttributeError ''kwargs'')
      | Some k \<Rightarrow>
          (if list_ex (\<lambda>key. key \<in> dom k) [''type'', ''location'', ''required'', ''nullable'']
           then Inl (TypeError ''multiple values for keyword argument'')
           else Inr (parser @
                  [\<lparr>a_name = name field, a_type = parse_func field, a_location = location field,
                    a_required = required field, a_nullable = nullable field, a_kwargs = k\<rparr>])))"

fun register_arguments :: "QueryField list \<Rightarrow> Argument list \<Rightarrow> error + Argument list" where
  "register_arguments [] parser = Inr parser"
| "register_arguments (field # rest) parser =
     (case add_argument field parser of
        Inl e \<Rightarrow> Inl e
      | Inr parser' \<Rightarrow> register_arguments rest parser')"

text \<open>The loop of lines 40 to 44 over the parsed values.\<close>

fun check_enum_values :: "QueryField list \<Rightarrow> kwargs \<Rightarrow> error + unit" where
  "check_enum_values [] parsed = Inr ()"
| "check_enum_values (field # rest) parsed =
     (if enum_values field \<noteq> [] \<and> name field \<in> dom parsed
      then (case parsed (name field) of
              None \<Rightarrow> check_enum_values rest parsed
            | Some v \<Rightarrow>
                (if v \<noteq> PNone \<and> \<not> py_in v (enum_values field)
                 then Inl (InvalidArgumentException (name field) (enum_values field))
                 else check_enum_values rest parsed))
      else check_enum_values rest parsed)"

text \<open>
  \<open>parse_args\<close>. The parser of flask-restful is a parameter: from the registered
  arguments and the request it gives the parsed values, or aborts.
\<close>

definition parse_args ::
  "(Argument list \<Rightarrow> 'req \<Rightarrow> error + kwargs) \<Rightarrow> (model_class \<Rightarrow> bool \<Rightarrow> kwargs \<Rightarrow> error + kwargs)
   \<Rightarrow> model_class \<Rightarrow> 'req \<Rightarrow> error + model_instance" where
  "parse_args RequestParser_parse_args BaseModel_init cls req =
     (case register_arguments (cls_fields cls) [] of
        Inl e \<Rightarrow> Inl e
      | Inr parser \<Rightarrow>
          (case RequestParser_parse_args parser req of
             Inl e \<Rightarrow> Inl e
           | Inr parsed \<Rightarrow>
               (case check_enum_values (cls_fields cls) parsed of
                  Inl e \<Rightarrow> Inl e
                | Inr u \<Rightarrow> BaseQueryModel_init BaseModel_init cls parsed)))"

subsection \<open>\<open>__str__\<close> and the names it can see\<close>

text \<open>
  The names bound in the module \<open>models/query_model/__init__.py\<close>: its three imports
  bring in \<open>reqparse\<close>, \<open>Field\<close>, \<open>ApiDataType\<close>, \<open>BaseModel\<close> and
  \<open>InvalidArgumentException\<close>; its three class statements bind the classes; the rest are
  the attributes that every package module has.
\<close>

definition module_globals :: "string list" where
  "module_globals =
     [''reqparse'', ''Field'', ''ApiDataType'', ''BaseModel'', ''InvalidArgumentException'',
      ''QueryField'', ''BaseQueryModel'', ''NoArgs'',
      ''__name__'', ''__doc__'', ''__package__'', ''__loader__'', ''__spec__'', ''__path__'',
      ''__file__'', ''__cached__'', ''__builtins__'']"

text \<open>The names of Python's \<open>builtins\<close> module: functions and types, constants, exceptions.\<close>

definition python_builtins :: "string list" where
  "python_builtins =
     [''abs'', ''aiter'', ''all'', ''anext'', ''any'', ''ascii'', ''bin'', ''bool'',
      ''breakpoint'', ''bytearray'', ''bytes'', ''callable'', ''chr'', ''classmethod'',
      ''compile'', ''complex'', ''delattr'', ''dict'', ''dir'', ''divmod'', ''enumerate'',
      ''eval'', ''exec'', ''filter'', ''float'', ''format'', ''frozenset'', ''getattr'',
      ''globals'', ''hasattr'', ''hash'', ''help'', ''hex'', ''id'', ''input'', ''int'',
      ''isinstance'', ''issubclass'', ''iter'', ''len'', ''list'', ''locals'', ''map'',
      ''max'', ''memoryview'', ''min'', ''next'', ''object'', ''oct'', ''open'', ''ord'',
      ''pow'', ''print'', ''property'', ''range'', ''repr'', ''reversed'', ''round'', ''set'',
      ''setattr'', ''slice'', ''sorted'', ''staticmethod'', ''str'', ''sum'', ''super'',
      ''tuple'', ''type'', ''vars'', ''zip'', ''__import__'', ''__build_class__'',
      ''__debug__'', ''__doc__'', ''__name__'', ''__package__'', ''__loader__'', ''__spec__'',
      ''True'', ''False'', ''None'', ''Ellipsis'', ''NotImplemented'',
      ''copyright'', ''credits'', ''license'', ''exit'', ''quit'',
      ''BaseException'', ''BaseExceptionGroup'', ''Exception'', ''ExceptionGroup'',
      ''GeneratorExit'', ''KeyboardInterrupt'', ''SystemExit'',
      ''ArithmeticError'', ''AssertionError'', ''AttributeError'', ''BlockingIOError'',
      ''BrokenPipeError'', ''BufferError'', ''ChildProcessError'', ''ConnectionAbortedError'',
      ''ConnectionError'', ''ConnectionRefusedError'', ''ConnectionResetError'', ''EOFError'',
      ''EnvironmentError'', ''FileExistsError'', ''FileNotFoundError'', ''FloatingPointError'',
      ''IOError'', ''ImportError'', ''IndentationError'', ''IndexError'', ''InterruptedError'',
      ''IsADirectoryError'', ''KeyError'', ''LookupError'', ''MemoryError'',
      ''ModuleNotFoundError'', ''NameError'', ''NotADirectoryError'', ''NotImplementedError'',
      ''OSError'', ''OverflowError'', ''PermissionError'', ''ProcessLookupError'',
      ''RecursionError'', ''ReferenceError'', ''RuntimeError'', ''StopAsyncIteration'',
      ''StopIteration'', ''SyntaxError'', ''SystemError'', ''TabError'', ''TimeoutError'',
      ''TypeError'', ''UnboundLocalError'', ''UnicodeDecodeError'', ''UnicodeEncodeError'',
      ''UnicodeError'', ''UnicodeTranslateError'', ''ValueError'', ''ZeroDivisionError'',
      ''BytesWarning'', ''DeprecationWarning'', ''EncodingWarning'', ''FutureWarning'',
      ''ImportWarning'', ''PendingDeprecationWarning'', ''ResourceWarning'',
      ''RuntimeWarning'', ''SyntaxWarning'', ''UnicodeWarning'', ''UserWarning'', ''Warning'']"

text \<open>
  Looking a name up inside a method: the local names, then the module's globals, then
  the builtins; a name found in none of them is a \<open>NameError\<close>.
\<close>

definition resolve_name :: "string list \<Rightarrow> string \<Rightarrow> error + string" where
  "resolve_name local_names n =
     (if n \<in> set local_names \<or> n \<in> set module_globals \<or> n \<in> set python_builtins
      then Inr n else Inl (NameError n))"

text \<open>
  \<open>__str__\<close>. The arguments of \<open>format\<close> are evaluated from left to right: the class
  name, then the name \<open>pprint\<close>, then \<open>self.__storage__\<close>, then the call of
  \<open>pformat\<close>, which is a parameter.
\<close>

definition BaseQueryModel_str :: "(kwargs \<Rightarrow> nat \<Rightarrow> string) \<Rightarrow> model_instance \<Rightarrow> error + string" where
  "BaseQueryModel_str pformat self =
     (case resolve_name [''self''] ''pprint'' of
        Inl e \<Rightarrow> Inl e
      | Inr m \<Rightarrow>
          (case storage self of
             None \<Rightarrow> Inl (AttributeError ''__storage__'')
           | Some d \<Rightarrow>
               Inr (''[<'' @ inst_class self @ ''>: '' @ [CHR 0x0A] @ pformat d 4 @ '']'')))"

subsection \<open>Properties of fields and instances\<close>

text \<open>
  Modelled from the spec: \<open>Field.__init__\<close> (module \<open>models\<close>) is not among the sources.
  The glossary describes a field by its type, its required and nullable flags, its enum
  constraint and its default; this initialiser stores its five arguments under the names
  that \<open>QueryField.__slots__\<close> lists for them and sets no attribute \<open>kwargs\<close>. The name
  is assigned later, when the class is created. It serves as the concrete base class
  where a property is evaluated on an example.
\<close>

definition Field_init_slots ::
  "string \<Rightarrow> callable option \<Rightarrow> pyval list \<Rightarrow> string \<Rightarrow> bool \<Rightarrow> error + Field" where
  "Field_init_slots ftype mock enum comment nullable_arg =
     Inr \<lparr>name = [], field_type = ftype, mock_func = mock, enum_values = enum,
          description = comment, nullable = nullable_arg, kwargs = None\<rparr>"

text \<open>A call that passes none of the optional parameters.\<close>

definition no_args :: QueryField_args where
  "no_args = \<lparr>arg_parser_func = None, arg_required = None, arg_mock_func = None,
     arg_enum_values = None, arg_comment = None, arg_nullable = None\<rparr>"

text \<open>
  C5. A \<open>QueryField\<close> constructed without the flags \<open>required\<close> and \<open>nullable\<close> has
  \<open>required = False\<close>, and \<open>True\<close> is what it hands to the base initialiser as
  \<open>nullable\<close>, so that \<open>nullable\<close> is \<open>True\<close> for a base class that stores the flag it is
  given. The attribute \<open>default\<close> is set exactly when a keyword \<open>default\<close> is supplied,
  and then to the supplied value.
\<close>

theorem QueryField_init_defaults:
  assumes base: "\<And>t m vs c n self. Field_init t m vs c n = Inr self \<Longrightarrow> nullable self = n"
    and init: "QueryField_init Field_init ftype loc a kw = Inr f"
    and flags: "arg_required a = None" "arg_nullable a = None"
  shows "required f = False \<and> nullable f = True
    \<and> Field_init ftype (arg_mock_func a)
         (case arg_enum_values a of None \<Rightarrow> [] | Some vs \<Rightarrow> vs)
         (case arg_comment a of None \<Rightarrow> [] | Some c \<Rightarrow> c) True = Inr (Field.truncate f)
    \<and> default_attr f = kw ''default''
    \<and> (default_attr f \<noteq> None) = (''default'' \<in> dom kw)"
proof -
  let ?vs = "case arg_enum_values a of None \<Rightarrow> [] | Some vs \<Rightarrow> vs"
  let ?c = "case arg_comment a of None \<Rightarrow> [] | Some c \<Rightarrow> c"
  from init flags obtain self where
    self: "Field_init ftype (arg_mock_func a) ?vs ?c True = Inr self"
    and f: "f = Field.extend self
              (QueryField.fields loc kw False (arg_parser_func a) (kw ''default''))"
    by (auto simp: QueryField_init_def Let_def split: sum.splits)
  from base [OF self] have n: "nullable self = True" .
  have t: "Field.truncate f = self"
    using f by (cases self) (simp add: Field.extend_def QueryField.fields_def Field.truncate_def)
  have "required f = False" "nullable f = True" "default_attr f = kw ''default''"
    using f n by (simp_all add: Field.extend_def QueryField.fields_def)
  with t self show ?thesis by auto
qed

theorem QueryField_init_defaults_witness:
  "(\<exists>f. QueryField_init Field_init_slots ''STRING'' (PStr ''args'') no_args
          [''default'' \<mapsto> PInt 5] = Inr f
        \<and> required f = False \<and> nullable f = True \<and> default_attr f = Some (PInt 5))
   \<and> (\<exists>f. QueryField_init Field_init_slots ''STRING'' (PStr ''args'') no_args
          [''help'' \<mapsto> PStr ''h''] = Inr f
        \<and> required f = False \<and> nullable f = True \<and> default_attr f = None)"
proof -
  have b: "\<And>t m vs c n self. Field_init_slots t m vs c n = Inr self \<Longrightarrow> nullable self = n"
    by (auto simp: Field_init_slots_def)
  have n: "arg_required no_args = None" "arg_nullable no_args = None"
    by (simp_all add: no_args_def)
  obtain f1 where f1: "QueryField_init Field_init_slots ''STRING'' (PStr ''args'') no_args
      [''default'' \<mapsto> PInt 5] = Inr f1"
    by (simp add: QueryField_init_def Field_init_slots_def Let_def no_args_def)
  obtain f2 where f2: "QueryField_init Field_init_slots ''STRING'' (PStr ''args'') no_args
      [''help'' \<mapsto> PStr ''h''] = Inr f2"
    by (simp add: QueryField_init_def Field_init_slots_def Let_def no_args_def)
  from QueryField_init_defaults [OF b f1 n] QueryField_init_defaults [OF b f2 n] f1 f2
  show ?thesis by simp
qed

lemma delete_missing_result:
  assumes "delete_missing ns self = Inr self'"
    and "storage self = Some kw"
    and "''__storage__'' \<in> set ns \<Longrightarrow> ''__storage__'' \<in> dom kw"
  shows "storage self' = Some kw
    \<and> attrs self' = (\<lambda>n. if n \<in> set ns \<and> n \<notin> dom kw then None else attrs self n)
    \<and> inst_class self' = inst_class self"
  using assms
proof (induction ns arbitrary: self)
  case Nil
  then show ?case by simp
next
  case (Cons n ns)
  show ?case
  proof (cases "n \<in> dom kw")
    case True
    with Cons.prems have "delete_missing ns self = Inr self'" by simp
    from Cons.IH [OF this Cons.prems(2)] Cons.prems(3) True show ?thesis
      by (auto simp: fun_eq_iff)
  next
    case False
    with Cons.prems(3) have ne: "n \<noteq> ''__storage__''" by auto
    from False Cons.prems(1,2) ne obtain v where v: "attrs self n = Some v"
      and rest: "delete_missing ns (self\<lparr>attrs := (attrs self)(n := None)\<rparr>) = Inr self'"
      by (auto simp: delattr_def split: option.splits sum.splits)
    have st: "storage (self\<lparr>attrs := (attrs self)(n := None)\<rparr>) = Some kw"
      using Cons.prems(2) by simp
    from Cons.IH [OF rest st] Cons.prems(3) False show ?thesis
      by (auto simp: fun_eq_iff)
  qed
qed

text \<open>
  C8. An instance that \<open>BaseQueryModel.__init__\<close> has built from the keywords \<open>kwargs\<close>
  holds \<open>kwargs\<close> as its \<open>__storage__\<close>: \<open>as_dict()\<close> returns \<open>kwargs\<close>, \<open>item in model\<close>
  holds exactly for the keys of \<open>kwargs\<close>, \<open>get(item, default)\<close> returns \<open>kwargs[item]\<close>
  for a key and \<open>default\<close> otherwise, and each name of \<open>__fields_map__\<close> that is not a
  key of \<open>kwargs\<close> is no attribute of the instance. The three methods only read the
  instance. The names of \<open>__fields_map__\<close> come from code that is not among the sources;
  the instance's own attribute name \<open>__storage__\<close> is taken not to be among them, unless
  it is a key of \<open>kwargs\<close>.
\<close>

theorem BaseQueryModel_storage_invariant:
  assumes init: "BaseQueryModel_init BaseModel_init cls kw = Inr self"
    and reserved: "''__storage__'' \<in> set (cls_fields_map_keys cls) \<Longrightarrow> ''__storage__'' \<in> dom kw"
  shows "storage self = Some kw
    \<and> as_dict self = Inr kw
    \<and> (\<forall>item. contains self item = Inr (item \<in> dom kw))
    \<and> (\<forall>item dflt. get self item dflt = Inr (case kw item of None \<Rightarrow> dflt | Some v \<Rightarrow> v))
    \<and> (\<forall>n \<in> set (cls_fields_map_keys cls). n \<notin> dom kw \<longrightarrow> attrs self n = None)"
proof -
  from init obtain a where del0: "delete_missing (cls_fields_map_keys cls)
      \<lparr>inst_class = class_name cls, attrs = a(''__storage__'' := None), storage = Some kw\<rparr>
      = Inr self"
    by (auto simp: BaseQueryModel_init_def split: if_splits sum.splits)
  define s0 where "s0 = \<lparr>inst_class = class_name cls, attrs = a(''__storage__'' := None),
    storage = Some kw\<rparr>"
  from del0 have del: "delete_missing (cls_fields_map_keys cls) s0 = Inr self"
    by (simp add: s0_def)
  have st0: "storage s0 = Some kw" by (simp add: s0_def)
  note r = delete_missing_result [OF del st0 reserved]
  from r have st: "storage self = Some kw" by simp
  from r have at: "\<And>n. n \<in> set (cls_fields_map_keys cls) \<Longrightarrow> n \<notin> dom kw \<Longrightarrow> attrs self n = None"
    by simp
  from st at show ?thesis
    by (simp add: as_dict_def contains_def get_def)
qed

text \<open>
  C9. \<open>__str__\<close> raises \<open>NameError\<close> for every instance, whatever \<open>pformat\<close> would
  return: the name \<open>pprint\<close> is bound neither in the method, nor in the module, nor in
  the builtins.
\<close>

theorem BaseQueryModel_str_NameError:
  "BaseQueryModel_str pformat self = Inl (NameError ''pprint'')"
  by (simp add: BaseQueryModel_str_def resolve_name_def module_globals_def python_builtins_def)

text \<open>
  Modelled from the spec: \<open>BaseModel.__init__\<close> (module \<open>models\<close>) is not among the
  sources. Called with \<open>drop_missing=False\<close> it is taken to set every name of
  \<open>__fields_map__\<close> as an attribute, to the keyword of that name or to \<open>None\<close>, which is
  what lets the loop of \<open>BaseQueryModel.__init__\<close> delete the missing ones. It serves as
  the concrete base class where a property is evaluated on an example.
\<close>

definition BaseModel_init_setattr :: "model_class \<Rightarrow> bool \<Rightarrow> kwargs \<Rightarrow> error + kwargs" where
  "BaseModel_init_setattr cls drop_missing kw =
     Inr (\<lambda>n. if n \<in> set (cls_fields_map_keys cls)
               then (if drop_missing \<and> kw n = None then None
                     else Some (case kw n of None \<Rightarrow> PNone | Some v \<Rightarrow> v))
               else None)"

definition paging_model :: model_class where
  "paging_model = \<lparr>class_name = ''Paging'', cls_fields = [],
     cls_fields_map_keys = [''page'', ''size'']\<rparr>"

theorem BaseQueryModel_storage_invariant_witness:
  "\<exists>self. BaseQueryModel_init BaseModel_init_setattr paging_model [''page'' \<mapsto> PInt 2] = Inr self
     \<and> as_dict self = Inr [''page'' \<mapsto> PInt 2]
     \<and> contains self ''page'' = Inr True
     \<and> contains self ''size'' = Inr False
     \<and> get self ''page'' PNone = Inr (PInt 2)
     \<and> get self ''size'' (PInt 10) = Inr (PInt 10)
     \<and> attrs self ''size'' = None"
proof -
  obtain self where
    init: "BaseQueryModel_init BaseModel_init_setattr paging_model [''page'' \<mapsto> PInt 2] = Inr self"
    by (simp add: BaseQueryModel_init_def BaseModel_init_setattr_def paging_model_def delattr_def)
  have res: "''__storage__'' \<in> set (cls_fields_map_keys paging_model)
      \<Longrightarrow> ''__storage__'' \<in> dom [''page'' \<mapsto> PInt 2]"
    by (simp add: paging_model_def)
  from BaseQueryModel_storage_invariant [OF init res] init show ?thesis
    by (auto simp: paging_model_def)
qed

subsection \<open>Enum validation in \<open>parse_args\<close>\<close>

text \<open>
  The condition of C1 on one field: the field's \<open>enum_values\<close> is
  not empty, and the field has a parsed value that is neither \<open>None\<close> nor a member of
  \<open>enum_values\<close>.
\<close>

definition enum_violation :: "kwargs \<Rightarrow> QueryField \<Rightarrow> bool" where
  "enum_violation parsed field =
     (enum_values field \<noteq> []
      \<and> (case parsed (name field) of
            None \<Rightarrow> False
          | Some v \<Rightarrow> v \<noteq> PNone \<and> \<not> py_in v (enum_values field)))"

lemma check_enum_values_find:
  "check_enum_values fs parsed =
     (case find (enum_violation parsed) fs of
        None \<Rightarrow> Inr ()
      | Some f \<Rightarrow> Inl (InvalidArgumentException (name f) (enum_values f)))"
  by (induction fs) (auto simp: enum_violation_def split: option.splits)

lemma parse_args_after_parsing:
  assumes "register_arguments (cls_fields cls) [] = Inr parser"
    and "RequestParser_parse_args parser req = Inr parsed"
  shows "parse_args RequestParser_parse_args BaseModel_init cls req =
     (case check_enum_values (cls_fields cls) parsed of
        Inl e \<Rightarrow> Inl e
      | Inr u \<Rightarrow> BaseQueryModel_init BaseModel_init cls parsed)"
  using assms by (simp add: parse_args_def)

text \<open>
  When the construction returns: the keywords bind neither \<open>self\<close> nor \<open>drop_missing\<close>,
  the base initialiser returns, and each name of \<open>__fields_map__\<close> (a dictionary's keys
  are distinct) that is no keyword is an attribute that the base initialiser has set.
\<close>

lemma delete_missing_returns:
  assumes "storage self = Some kw"
    and "distinct ns"
    and "''__storage__'' \<notin> set ns"
    and "\<forall>n \<in> set ns. n \<notin> dom kw \<longrightarrow> n \<in> dom (attrs self)"
  shows "\<exists>self'. delete_missing ns self = Inr self'"
  using assms
proof (induction ns arbitrary: self)
  case Nil
  then show ?case by simp
next
  case (Cons n ns)
  show ?case
  proof (cases "n \<in> dom kw")
    case True
    with Cons show ?thesis by simp
  next
    case False
    with Cons.prems obtain v where v: "attrs self n = Some v" by auto
    let ?self = "self\<lparr>attrs := (attrs self)(n := None)\<rparr>"
    have "\<exists>self'. delete_missing ns ?self = Inr self'"
    proof (rule Cons.IH)
      show "storage ?self = Some kw" using Cons.prems(1) by simp
      show "distinct ns" using Cons.prems(2) by simp
      show "''__storage__'' \<notin> set ns" using Cons.prems(3) by simp
      show "\<forall>m \<in> set ns. m \<notin> dom kw \<longrightarrow> m \<in> dom (attrs ?self)"
        using Cons.prems(2,4) by auto
    qed
    moreover have "n \<noteq> ''__storage__''" using Cons.prems(3) by auto
    ultimately show ?thesis
      using False v Cons.prems(1) by (simp add: delattr_def)
  qed
qed

lemma BaseQueryModel_init_returns:
  assumes "''self'' \<notin> dom kw" "''drop_missing'' \<notin> dom kw"
    and "BaseModel_init cls False kw = Inr a"
    and "distinct (cls_fields_map_keys cls)"
    and "''__storage__'' \<notin> set (cls_fields_map_keys cls)"
    and "\<forall>n \<in> set (cls_fields_map_keys cls). n \<notin> dom kw \<longrightarrow> n \<in> dom a"
  shows "\<exists>self. BaseQueryModel_init BaseModel_init cls kw = Inr self"
proof -
  let ?self = "\<lparr>inst_class = class_name cls, attrs = a(''__storage__'' := None),
    storage = Some kw\<rparr>"
  have "\<exists>self. delete_missing (cls_fields_map_keys cls) ?self = Inr self"
  proof (rule delete_missing_returns)
    show "storage ?self = Some kw" by simp
    show "distinct (cls_fields_map_keys cls)" by fact
    show "''__storage__'' \<notin> set (cls_fields_map_keys cls)" by fact
    show "\<forall>n \<in> set (cls_fields_map_keys cls). n \<notin> dom kw \<longrightarrow> n \<in> dom (attrs ?self)"
      using assms(5,6) by auto
  qed
  with assms(1-3) show ?thesis
    by (simp add: BaseQueryModel_init_def)
qed

text \<open>
  C1. For a request that the parser has parsed, \<open>parse_args\<close> enforces the enum
  constraints: if some declared field with a non-empty \<open>enum_values\<close> has a parsed value
  that is neither \<open>None\<close> nor a member of it, \<open>parse_args\<close> raises
  \<open>InvalidArgumentException\<close> for such a field; if no field has, no such error is raised
  and \<open>parse_args\<close> returns what the construction of the instance from the parsed
  values returns, which is an instance holding the parsed values whenever the
  construction itself returns.
\<close>

theorem parse_args_enum_validation:
  assumes reg: "register_arguments (cls_fields cls) [] = Inr parser"
    and parsed: "RequestParser_parse_args parser req = Inr parsed"
  shows "((\<exists>f \<in> set (cls_fields cls). enum_violation parsed f)
          \<longrightarrow> (\<exists>f \<in> set (cls_fields cls). enum_violation parsed f
                \<and> parse_args RequestParser_parse_args BaseModel_init cls req
                    = Inl (InvalidArgumentException (name f) (enum_values f))))
    \<and> ((\<forall>f \<in> set (cls_fields cls). \<not> enum_violation parsed f)
          \<longrightarrow> parse_args RequestParser_parse_args BaseModel_init cls req
                = BaseQueryModel_init BaseModel_init cls parsed)
    \<and> ((\<forall>f \<in> set (cls_fields cls). \<not> enum_violation parsed f)
          \<and> ''self'' \<notin> dom parsed \<and> ''drop_missing'' \<notin> dom parsed
          \<and> BaseModel_init cls False parsed = Inr a
          \<and> distinct (cls_fields_map_keys cls)
          \<and> ''__storage__'' \<notin> set (cls_fields_map_keys cls)
          \<and> (\<forall>n \<in> set (cls_fields_map_keys cls). n \<notin> dom parsed \<longrightarrow> n \<in> dom a)
          \<longrightarrow> (\<exists>self. parse_args RequestParser_parse_args BaseModel_init cls req = Inr self
                \<and> as_dict self = Inr parsed))"
proof -
  have pa: "parse_args RequestParser_parse_args BaseModel_init cls req =
     (case check_enum_values (cls_fields cls) parsed of
        Inl e \<Rightarrow> Inl e
      | Inr u \<Rightarrow> BaseQueryModel_init BaseModel_init cls parsed)"
    using reg parsed by (rule parse_args_after_parsing)
  have raises: "\<exists>f \<in> set (cls_fields cls). enum_violation parsed f
      \<and> parse_args RequestParser_parse_args BaseModel_init cls req
          = Inl (InvalidArgumentException (name f) (enum_values f))"
    if "\<exists>f \<in> set (cls_fields cls). enum_violation parsed f"
  proof -
    from that obtain f where f: "find (enum_violation parsed) (cls_fields cls) = Some f"
      by (cases "find (enum_violation parsed) (cls_fields cls)") (auto simp: find_None_iff)
    then have "f \<in> set (cls_fields cls)" "enum_violation parsed f"
      by (auto simp: find_Some_iff)
    moreover from f have "parse_args RequestParser_parse_args BaseModel_init cls req
        = Inl (InvalidArgumentException (name f) (enum_values f))"
      by (simp add: pa check_enum_values_find)
    ultimately show ?thesis by blast
  qed
  have constructs: "parse_args RequestParser_parse_args BaseModel_init cls req
      = BaseQueryModel_init BaseModel_init cls parsed"
    if "\<forall>f \<in> set (cls_fields cls). \<not> enum_violation parsed f"
  proof -
    from that have "find (enum_violation parsed) (cls_fields cls) = None"
      by (simp add: find_None_iff)
    then show ?thesis by (simp add: pa check_enum_values_find)
  qed
  have returns: "\<exists>self. parse_args RequestParser_parse_args BaseModel_init cls req = Inr self
      \<and> as_dict self = Inr parsed"
    if ok: "\<forall>f \<in> set (cls_fields cls). \<not> enum_violation parsed f"
      and kw: "''self'' \<notin> dom parsed" "''drop_missing'' \<notin> dom parsed"
      and base: "BaseModel_init cls False parsed = Inr a"
      and keys: "distinct (cls_fields_map_keys cls)"
        "''__storage__'' \<notin> set (cls_fields_map_keys cls)"
        "\<forall>n \<in> set (cls_fields_map_keys cls). n \<notin> dom parsed \<longrightarrow> n \<in> dom a"
  proof -
    from BaseQueryModel_init_returns [where BaseModel_init = BaseModel_init, OF kw base keys]
    obtain self
      where self: "BaseQueryModel_init BaseModel_init cls parsed = Inr self" ..
    from self keys(2) have "as_dict self = Inr parsed"
      by (auto simp: BaseQueryModel_init_def as_dict_def split: if_splits sum.splits
          dest!: delete_missing_result [where kw = parsed])
    with self constructs [OF ok] show ?thesis by simp
  qed
  from raises constructs returns show ?thesis by blast
qed

text \<open>
  An example class with one field \<open>color\<close>, restricted to \<open>red\<close> and \<open>blue\<close>, whose base
  class provides an empty \<open>kwargs\<close>; and a parser that stores each registered argument,
  with \<open>None\<close> for one that the request lacks.
\<close>

definition color_field :: QueryField where
  "color_field =
     \<lparr>name = ''color'', field_type = ''STRING'', mock_func = None,
      enum_values = [PStr ''red'', PStr ''blue''], description = [], nullable = True,
      kwargs = Some Map.empty, location = PStr ''args'', parser_kwargs = Map.empty,
      required = False, parse_func = None, default_attr = None\<rparr>"

definition color_model :: model_class where
  "color_model = \<lparr>class_name = ''Color'', cls_fields = [color_field],
     cls_fields_map_keys = [''color'']\<rparr>"

definition store_all :: "Argument list \<Rightarrow> kwargs \<Rightarrow> error + kwargs" where
  "store_all parser req =
     Inr (\<lambda>n. if n \<in> a_name ` set parser
               then Some (case req n of None \<Rightarrow> PNone | Some v \<Rightarrow> v) else None)"

lemma color_model_registered:
  "register_arguments (cls_fields color_model) [] =
     Inr [\<lparr>a_name = ''color'', a_type = None, a_location = PStr ''args'', a_required = False,
           a_nullable = True, a_kwargs = Map.empty\<rparr>]"
  by (simp add: color_model_def color_field_def add_argument_def)

theorem parse_args_enum_validation_witness:
  "parse_args store_all BaseModel_init_setattr color_model [''color'' \<mapsto> PStr ''green'']
     = Inl (InvalidArgumentException ''color'' [PStr ''red'', PStr ''blue''])
   \<and> (\<exists>self. parse_args store_all BaseModel_init_setattr color_model [''color'' \<mapsto> PStr ''red'']
          = Inr self
        \<and> get self ''color'' PNone = Inr (PStr ''red''))
   \<and> (\<exists>self. parse_args store_all BaseModel_init_setattr color_model Map.empty = Inr self
        \<and> get self ''color'' (PStr ''unset'') = Inr PNone)"
proof -
  let ?parser = "[\<lparr>a_name = ''color'', a_type = None, a_location = PStr ''args'',
    a_required = False, a_nullable = True, a_kwargs = Map.empty\<rparr>]"
  let ?p = "\<lambda>req n. if n = ''color''
    then Some (case req n of None \<Rightarrow> PNone | Some v \<Rightarrow> v) else (None :: pyval option)"
  have s: "store_all ?parser req = Inr (?p req)" for req
    by (simp add: store_all_def)
  note t = parse_args_enum_validation [where RequestParser_parse_args = store_all
      and BaseModel_init = BaseModel_init_setattr and cls = color_model and parser = ?parser,
      OF color_model_registered]
  have fs: "cls_fields color_model = [color_field]"
    by (simp add: color_model_def)
  have green: "enum_violation (?p [''color'' \<mapsto> PStr ''green'']) color_field"
    by (simp add: enum_violation_def color_field_def)
  have red: "\<not> enum_violation (?p [''color'' \<mapsto> PStr ''red'']) color_field"
    by (simp add: enum_violation_def color_field_def)
  have none: "\<not> enum_violation (?p Map.empty) color_field"
    by (simp add: enum_violation_def color_field_def)
  from t [OF s [of "[''color'' \<mapsto> PStr ''green'']"]] green fs
  have 1: "parse_args store_all BaseModel_init_setattr color_model [''color'' \<mapsto> PStr ''green'']
      = Inl (InvalidArgumentException ''color'' [PStr ''red'', PStr ''blue''])"
    by (simp add: color_field_def)
  from t [OF s [of "[''color'' \<mapsto> PStr ''red'']"]] red fs
  have 2: "parse_args store_all BaseModel_init_setattr color_model [''color'' \<mapsto> PStr ''red'']
      = BaseQueryModel_init BaseModel_init_setattr color_model (?p [''color'' \<mapsto> PStr ''red''])"
    by simp
  from t [OF s [of Map.empty]] none fs
  have 3: "parse_args store_all BaseModel_init_setattr color_model Map.empty
      = BaseQueryModel_init BaseModel_init_setattr color_model (?p Map.empty)"
    by simp
  have 4: "\<exists>self. BaseQueryModel_init BaseModel_init_setattr color_model
              (?p [''color'' \<mapsto> PStr ''red'']) = Inr self
            \<and> get self ''color'' PNone = Inr (PStr ''red'')"
    by (simp add: BaseQueryModel_init_def BaseModel_init_setattr_def color_model_def dom_def
        get_def)
  have 5: "\<exists>self. BaseQueryModel_init BaseModel_init_setattr color_model (?p Map.empty) = Inr self
            \<and> get self ''color'' (PStr ''unset'') = Inr PNone"
    by (simp add: BaseQueryModel_init_def BaseModel_init_setattr_def color_model_def dom_def
        get_def)
  from 1 2 3 4 5 show ?thesis by simp
qed

subsection \<open>What \<open>parse_args\<close> registers\<close>

lemma add_argument_parser_kwargs:
  "add_argument (f\<lparr>parser_kwargs := k, default_attr := d\<rparr>) parser = add_argument f parser"
  by (simp add: add_argument_def split: option.splits)

text \<open>
  Where the registration succeeds, the parser holds one argument for each field, in the
  order of \<open>__fields__\<close>, with the field's name, \<open>parse_func\<close>, location and flags, and
  with the dictionary found under the attribute \<open>kwargs\<close>.
\<close>

lemma register_arguments_result:
  "register_arguments fs parser = Inr parser' \<Longrightarrow>
   parser' = parser @ map (\<lambda>f. \<lparr>a_name = name f, a_type = parse_func f,
       a_location = location f, a_required = required f, a_nullable = nullable f,
       a_kwargs = (case kwargs f of None \<Rightarrow> Map.empty | Some k \<Rightarrow> k)\<rparr>) fs"
proof (induction fs arbitrary: parser)
  case Nil
  then show ?case by simp
next
  case (Cons f fs)
  from Cons.prems obtain p where p: "add_argument f parser = Inr p"
    and rest: "register_arguments fs p = Inr parser'"
    by (auto split: sum.splits)
  from p have "p = parser @ [\<lparr>a_name = name f, a_type = parse_func f,
       a_location = location f, a_required = required f, a_nullable = nullable f,
       a_kwargs = (case kwargs f of None \<Rightarrow> Map.empty | Some k \<Rightarrow> k)\<rparr>]"
    by (auto simp: add_argument_def split: option.splits if_splits)
  with Cons.IH [OF rest] show ?case by simp
qed

text \<open>
  C4. \<open>parse_args\<close> does not register a field's extra parser keyword arguments.
  \<open>QueryField.__init__\<close> stores them under \<open>parser_kwargs\<close>, and \<open>parse_args\<close> expands
  \<open>field.kwargs\<close>: whatever the base initialiser does, two fields that differ only in
  their extra keyword arguments are registered alike. With a base class that sets no
  attribute \<open>kwargs\<close>, the field \<open>QueryField(STRING, 'args', help='h')\<close> makes the first
  \<open>add_argument\<close> raise \<open>AttributeError\<close>, and so does \<open>parse_args\<close> for every parser,
  base model and request.
\<close>

theorem parse_args_extra_kwargs_not_registered:
  "(case (QueryField_init Field_init ftype loc a kw, QueryField_init Field_init ftype loc a kw') of
      (Inr f, Inr f') \<Rightarrow> add_argument f parser = add_argument f' parser
    | (Inl e, Inl e') \<Rightarrow> e = e'
    | _ \<Rightarrow> False)
   \<and> (\<exists>f. QueryField_init Field_init_slots ''STRING'' (PStr ''args'') no_args
             [''help'' \<mapsto> PStr ''h''] = Inr f
        \<and> parser_kwargs f = [''help'' \<mapsto> PStr ''h'']
        \<and> add_argument f [] = Inl (AttributeError ''kwargs'')
        \<and> (\<forall>RequestParser_parse_args BaseModel_init (req :: 'req).
              parse_args RequestParser_parse_args BaseModel_init
                \<lparr>class_name = ''Q'', cls_fields = [f\<lparr>name := ''q''\<rparr>],
                 cls_fields_map_keys = [''q'']\<rparr> req
              = Inl (AttributeError ''kwargs'')))"
proof (intro conjI)
  show "case (QueryField_init Field_init ftype loc a kw, QueryField_init Field_init ftype loc a kw') of
      (Inr f, Inr f') \<Rightarrow> add_argument f parser = add_argument f' parser
    | (Inl e, Inl e') \<Rightarrow> e = e'
    | _ \<Rightarrow> False"
    by (simp add: QueryField_init_def Let_def add_argument_def Field.extend_def
        QueryField.fields_def split: sum.splits option.splits)
  show "\<exists>f. QueryField_init Field_init_slots ''STRING'' (PStr ''args'') no_args
             [''help'' \<mapsto> PStr ''h''] = Inr f
        \<and> parser_kwargs f = [''help'' \<mapsto> PStr ''h'']
        \<and> add_argument f [] = Inl (AttributeError ''kwargs'')
        \<and> (\<forall>RequestParser_parse_args BaseModel_init (req :: 'req).
              parse_args RequestParser_parse_args BaseModel_init
                \<lparr>class_name = ''Q'', cls_fields = [f\<lparr>name := ''q''\<rparr>],
                 cls_fields_map_keys = [''q'']\<rparr> req
              = Inl (AttributeError ''kwargs''))"
    by (simp add: QueryField_init_def Field_init_slots_def no_args_def Let_def
        Field.extend_def QueryField.fields_def add_argument_def parse_args_def)
qed

end
